theory Spec2Isabelle
  imports Main "HOL-Library.Word"
begin

section \<open>wav2mp3.c: the encoder worker, the shared thread counter and the dispatcher\<close>

text \<open>
  The program is one C file. \<open>encode_wav2mp3\<close> streams a wave file through the LAME
  encoder into an mp3 file, \<open>threadFunction\<close> wraps it for one thread and releases the
  thread's slot in the counter \<open>numthreads\<close>, and \<open>main\<close> walks a directory and starts
  one thread per \<open>.wav\<close> entry, at most \<open>numcores\<close> at a time.

  The C library, the LAME library and the file system are outside the program. They
  appear here as a record of answers (\<open>world\<close>): what each call returns. The calls the
  program makes are collected, in order, in a list of events.
\<close>

subsection \<open>C types and constants\<close>

type_synonym short = "16 word"
type_synonym c_int = "32 word"
type_synonym size_t = "64 word"

definition WAV_SIZE :: nat where
  "WAV_SIZE = 8192"

definition MP3_SIZE :: nat where
  "MP3_SIZE = 8192"

definition EXIT_SUCCESS :: int where
  "EXIT_SUCCESS = 0"

definition EXIT_FAILURE :: int where
  "EXIT_FAILURE = 1"

subsection \<open>Messages and calls\<close>

text \<open>
  One constructor per \<open>printf\<close>/\<open>fprintf\<close> of the source. A call to the library
  is recorded with the arguments and the returned value the program goes on with:
  \<open>Fread n\<close> returned \<open>n\<close> items, \<open>LameEncodeBuffer left right r\<close> and
  \<open>LameEncodeFlush r\<close> returned the \<open>int\<close> \<open>r\<close>, \<open>Fwrite n\<close> was asked to write one
  item of \<open>n\<close> bytes.
\<close>

datatype message =
    BeginEncoding string string
  | EndEncoded string
  | ErrorNumthreads
  | ErrorInitParams
  | ErrorOpenWav string
  | ErrorOpenMp3 string
  | ErrorEncoding size_t
  | NotAWaveFile string
  | ErrorCreatingThread string

datatype event =
    Log message
  | LameInit
  | LameInitParams
  | FopenWav string
  | FopenMp3 string
  | Fread nat
  | LameEncodeBuffer "short list" "short list" c_int
  | LameEncodeFlush c_int
  | Fwrite size_t
  | LameClose
  | FcloseWav
  | FcloseMp3

subsection \<open>The world one job runs in\<close>

text \<open>
  \<open>'s\<close> is the encoder's internal state (\<open>lame_global_flags\<close>).
  \<^item> \<open>mutex_locks\<close>: \<open>pthread_mutex_lock\<close> returns 0.
  \<^item> \<open>init_params_result\<close>: what \<open>lame_init_params\<close> returns.
  \<^item> \<open>wavfile_opens\<close>, \<open>mp3file_opens\<close>: \<open>fopen\<close> returns a stream, not \<open>NULL\<close>.
  \<^item> \<open>wav_samples\<close>: the 16-bit samples of the source file, in file order.
  \<^item> \<open>lame_encode_buffer\<close>: the \<open>int\<close> the encoder returns for a block (the two channel
    buffers; the output buffer of \<open>MP3_SIZE\<close> bytes is the encoder's to fill), and its
    next state.
  \<^item> \<open>lame_encode_flush\<close>: the \<open>int\<close> the encoder returns for the flush.
  \<^item> \<open>mp3file_keeps\<close>: the destination is a buffered stream; given the sizes of the
    \<open>fwrite\<close> calls of the job, in order, how many bytes are in the file once the stream
    is flushed and closed (a full disk keeps 0, a healthy one their sum). A byte can be
    lost while an \<open>fwrite\<close> flushes the buffer or in \<open>fclose (mp3file)\<close>; the source looks at
    the result of neither.
\<close>

record 's world =
  mutex_locks :: bool
  init_params_result :: c_int
  wavfile_opens :: bool
  mp3file_opens :: bool
  wav_samples :: "short list"
  lame_state :: 's
  lame_encode_buffer :: "'s \<Rightarrow> short list \<Rightarrow> short list \<Rightarrow> c_int \<times> 's"
  lame_encode_flush :: "'s \<Rightarrow> c_int"
  mp3file_keeps :: "nat list \<Rightarrow> nat"

text \<open>
  \<open>malloc\<close> is taken to succeed and \<open>fread\<close> to deliver the file as it is; the source
  tests neither.

  What a run of \<open>encode_wav2mp3\<close> leaves behind: its return value, the calls it made
  and the number of bytes in the destination file.
\<close>

record outcome =
  status :: int
  calls :: "event list"
  mp3_bytes :: nat

subsection \<open>\<open>encode_wav2mp3\<close>\<close>

text \<open>A message is printed only when the mutex could be locked.\<close>

definition locked_log :: "'s world \<Rightarrow> message \<Rightarrow> event list" where
  "locked_log w m = (if mutex_locks w then [Log m] else [])"

text \<open>
  \<open>fread (wav_buffer, 2 * sizeof (short), WAV_SIZE, wavfile)\<close> returns the number of
  complete two-sample items it read, at most \<open>WAV_SIZE\<close>.
\<close>

definition fread_items :: "short list \<Rightarrow> nat" where
  "fread_items src = min WAV_SIZE (length src div 2)"

text \<open>The split of the stream buffer into the two channel buffers.\<close>

definition buffer_left :: "short list \<Rightarrow> nat \<Rightarrow> short list" where
  "buffer_left wav_buffer bytesread = map (\<lambda>i. wav_buffer ! (2 * i)) [0..<bytesread]"

definition buffer_right :: "short list \<Rightarrow> nat \<Rightarrow> short list" where
  "buffer_right wav_buffer bytesread = map (\<lambda>i. wav_buffer ! (2 * i + 1)) [0..<bytesread]"

text \<open>
  The bytes in the destination file after the calls \<open>fwrite (mp3_buffer, n, 1, mp3file)\<close>
  of the sizes \<open>written\<close> and the flush of the stream: never more than were handed over.
\<close>

definition mp3file_holds :: "'s world \<Rightarrow> nat list \<Rightarrow> nat" where
  "mp3file_holds w written = min (sum_list written) (mp3file_keeps w written)"

text \<open>
  The \<open>do ... while (bytesread != 0)\<close> loop and the calls after it. \<open>st\<close> is the
  encoder state, \<open>src\<close> what is left of the source, \<open>written\<close> the sizes of the writes so
  far. \<open>byteswrote\<close> is a \<open>size_t\<close>: the encoder's \<open>int\<close> is converted on assignment, and
  \<open>byteswrote < 0\<close> compares unsigned values. The return inside the loop leaves the
  stream open; it is flushed when the process ends.
\<close>

function (sequential) stream_loop :: "'s world \<Rightarrow> 's \<Rightarrow> short list \<Rightarrow> nat list \<Rightarrow> outcome" where
  "stream_loop w st src written =
     (let bytesread = fread_items src;
          wav_buffer = take (2 * bytesread) src;
          left = buffer_left wav_buffer bytesread;
          right = buffer_right wav_buffer bytesread;
          enc = lame_encode_buffer w st left right;
          byteswrote = (if bytesread \<noteq> 0 then scast (fst enc) else scast (lame_encode_flush w st)) :: size_t;
          st' = (if bytesread \<noteq> 0 then snd enc else st);
          encoded = Fread bytesread #
            (if bytesread \<noteq> 0 then [LameEncodeBuffer left right (fst enc)]
             else [LameEncodeFlush (lame_encode_flush w st)])
      in if byteswrote < 0 then
           \<lparr>status = EXIT_FAILURE,
            calls = encoded @ locked_log w (ErrorEncoding byteswrote),
            mp3_bytes = mp3file_holds w written\<rparr>
         else
           let written' = written @ [unat byteswrote];
               rest = (if bytesread \<noteq> 0
                       then stream_loop w st' (drop (2 * bytesread) src) written'
                       else \<lparr>status = EXIT_SUCCESS,
                             calls = [LameClose, FcloseWav, FcloseMp3],
                             mp3_bytes = mp3file_holds w written'\<rparr>)
           in \<lparr>status = status rest,
               calls = encoded @ Fwrite byteswrote # calls rest,
               mp3_bytes = mp3_bytes rest\<rparr>)"
  by pat_completeness auto
termination
  by (relation "measure (\<lambda>(w, st, src, written). length src)")
     (auto simp: fread_items_def WAV_SIZE_def)

definition encode_wav2mp3 :: "'s world \<Rightarrow> string \<Rightarrow> string \<Rightarrow> outcome" where
  "encode_wav2mp3 w wavfile_path mp3file_path =
     (let init = LameInit # LameInitParams #
            (if sint (init_params_result w) < 0 then locked_log w ErrorInitParams else [])
      in if \<not> wavfile_opens w then
           \<lparr>status = EXIT_FAILURE,
            calls = init @ FopenWav wavfile_path # locked_log w (ErrorOpenWav wavfile_path),
            mp3_bytes = 0\<rparr>
         else if \<not> mp3file_opens w then
           \<lparr>status = EXIT_FAILURE,
            calls = init @ FopenWav wavfile_path # FopenMp3 mp3file_path #
                    locked_log w (ErrorOpenMp3 mp3file_path),
            mp3_bytes = 0\<rparr>
         else
           let r = stream_loop w (lame_state w) (wav_samples w) []
           in r\<lparr>calls := init @ FopenWav wavfile_path # FopenMp3 mp3file_path # calls r\<rparr>)"

subsection \<open>\<open>threadFunction\<close>\<close>

text \<open>
  The block of \<open>threadFunction\<close> that releases the thread's slot: under the mutex,
  \<open>numthreads\<close> goes down by one when it is positive, and a message is printed when it
  is not. When the mutex cannot be locked the block is skipped. \<open>numthreads\<close> is a C
  \<open>int\<close> that counts threads; it is an \<open>int\<close> here, read at the moment the mutex is
  held.
\<close>

definition decrement :: "bool \<Rightarrow> int \<Rightarrow> int \<times> event list" where
  "decrement locked numthreads =
     (if locked then
        (if numthreads > 0 then (numthreads - 1, []) else (numthreads, [Log ErrorNumthreads]))
      else (numthreads, []))"

record thread_result =
  thread_exit :: int
  numthreads_after :: int
  thread_calls :: "event list"

text \<open>
  \<open>pthread_exit ((void* ) EXIT_FAILURE)\<close> ends the thread where it stands: nothing of the
  rest of the function runs.
\<close>

definition threadFunction :: "'s world \<Rightarrow> string \<Rightarrow> string \<Rightarrow> int \<Rightarrow> thread_result" where
  "threadFunction w wavfile_path mp3file_path numthreads =
     (let begin = locked_log w (BeginEncoding mp3file_path wavfile_path);
          r = encode_wav2mp3 w wavfile_path mp3file_path
      in if status r \<noteq> EXIT_SUCCESS then
           \<lparr>thread_exit = EXIT_FAILURE,
            numthreads_after = numthreads,
            thread_calls = begin @ calls r\<rparr>
         else
           let d = decrement (mutex_locks w) numthreads
           in \<lparr>thread_exit = EXIT_SUCCESS,
               numthreads_after = fst d,
               thread_calls = begin @ calls r @ snd d @ locked_log w (EndEncoded mp3file_path)\<rparr>)"

subsection \<open>\<open>main\<close>: one directory entry\<close>

text \<open>
  \<open>strrchr (s, c)\<close>: the tail of \<open>s\<close> from the last \<open>c\<close> on, \<open>NULL\<close> (\<open>None\<close>) when
  \<open>c\<close> does not occur.
\<close>

fun strrchr :: "string \<Rightarrow> char \<Rightarrow> string option" where
  "strrchr [] c = None"
| "strrchr (x # xs) c =
     (case strrchr xs c of
        Some r \<Rightarrow> Some r
      | None \<Rightarrow> if x = c then Some (x # xs) else None)"

text \<open>
  What C leaves undefined and the source does not exclude: \<open>strcmp\<close> and \<open>strcpy\<close>
  through \<open>NULL\<close>, and the read of \<open>path[strlen (path) - 1]\<close> on an empty \<open>path\<close>.
\<close>

datatype fault = NullPointer | OutOfBounds

datatype decision = Skipped message | Job string string

text \<open>
  The body of the \<open>readdir\<close> loop up to the thread parameters, for the entry
  \<open>d_name\<close>: the new value of \<open>path\<close> (it gets its separator at the first wave file)
  and either the message of the \<open>else\<close> branch or the two paths of the job.
\<close>

definition dispatch_entry :: "string \<Rightarrow> string \<Rightarrow> fault + string \<times> decision" where
  "dispatch_entry path d_name =
     (case strrchr d_name CHR ''.'' of
        None \<Rightarrow> Inl NullPointer
      | Some ext \<Rightarrow>
          if ext = ''.wav'' then
            (if path = [] then Inl OutOfBounds
             else
               let path' = (if last path \<noteq> CHR ''/'' then path @ ''/'' else path);
                   wavfile_path = path' @ d_name
               in case strrchr wavfile_path CHR ''.'' of
                    None \<Rightarrow> Inl NullPointer
                  | Some extension \<Rightarrow>
                      Inr (path', Job wavfile_path
                        (take (length wavfile_path - length extension) wavfile_path @ ''.mp3'')))
          else Inr (path, Skipped (NotAWaveFile d_name)))"

subsection \<open>\<open>main\<close>: the dispatcher and its threads\<close>

text \<open>
  \<open>numcores = sysconf (_SC_NPROCESSORS_ONLN)\<close>: the answer of the platform is taken
  as it is (\<open>sysconf\<close> answers -1 when it fails).
\<close>

definition numcores_of :: "int \<Rightarrow> int" where
  "numcores_of sysconf_result = sysconf_result"

text \<open>The test of the loop \<open>while (numthreads >= numcores)\<close>: the dispatcher sleeps again.\<close>

definition admission_waits :: "int \<Rightarrow> int \<Rightarrow> bool" where
  "admission_waits numthreads numcores \<longleftrightarrow> numthreads \<ge> numcores"

text \<open>The test of the loop \<open>while (numthreads > 0)\<close> after the directory is read.\<close>

definition drain_waits :: "int \<Rightarrow> bool" where
  "drain_waits numthreads \<longleftrightarrow> numthreads > 0"

text \<open>
  Where the dispatcher stands: reading the next entry, in the admission loop, at
  \<open>pthread_create\<close>, at the increment, in the drain loop, past it, or stopped by a fault.
\<close>

datatype location = Scan | Poll | Create | Increment | Drain | Finished | Crashed

text \<open>
  The shared state of a run: the counter, the dispatcher's place and what it still has
  to read, and the number of threads created and not yet ended. The counter is a C
  \<open>int\<close>, an \<open>int\<close> here: along a run it stays between 0 and \<open>numcores\<close>
  (\<open>run_from_nonneg\<close>, \<open>run_from_bounded\<close>), so \<open>numthreads += 1\<close> stays in range
  for every core count that fits an \<open>int\<close>.
\<close>

record system =
  numthreads :: int
  pc :: location
  path :: string
  entries :: "string list"
  running :: nat

definition initial :: "string \<Rightarrow> string list \<Rightarrow> system" where
  "initial p es = \<lparr>numthreads = 0, pc = Scan, path = p, entries = es, running = 0\<rparr>"

text \<open>
  One step of the dispatcher, every possible one: each touches \<open>numthreads\<close> at most
  once. \<open>pthread_create\<close> and \<open>pthread_mutex_lock\<close> can succeed or fail. When
  \<open>pthread_create\<close> fails the source prints and calls \<open>pthread_cancel (tmpThread)\<close>;
  \<open>tmpThread\<close> is unset before the first thread and names the thread created last after
  it, so the call does nothing, stops the process, or ends a running thread where it
  stands.
\<close>

definition dispatcher_steps :: "int \<Rightarrow> system \<Rightarrow> system list" where
  "dispatcher_steps numcores s =
     (case pc s of
        Scan \<Rightarrow>
          (case entries s of
             [] \<Rightarrow> [s\<lparr>pc := Drain\<rparr>]
           | d_name # rest \<Rightarrow>
               (case dispatch_entry (path s) d_name of
                  Inl f \<Rightarrow> [s\<lparr>pc := Crashed, running := 0\<rparr>]
                | Inr (p, d) \<Rightarrow>
                    (case d of
                       Skipped m \<Rightarrow> [s\<lparr>path := p, entries := rest\<rparr>]
                     | Job wavfile_path mp3file_path \<Rightarrow>
                         [s\<lparr>pc := Poll, path := p, entries := rest\<rparr>])))
      | Poll \<Rightarrow>
          (if admission_waits (numthreads s) numcores then [s] else [s\<lparr>pc := Create\<rparr>])
      | Create \<Rightarrow>
          [s\<lparr>pc := Increment, running := Suc (running s)\<rparr>,
           s\<lparr>pc := Scan\<rparr>,
           s\<lparr>pc := Crashed, running := 0\<rparr>] @
          (if running s > 0 then [s\<lparr>pc := Scan, running := running s - 1\<rparr>] else [])
      | Increment \<Rightarrow>
          [s\<lparr>pc := Scan, numthreads := numthreads s + 1\<rparr>, s\<lparr>pc := Scan\<rparr>]
      | Drain \<Rightarrow>
          (if drain_waits (numthreads s) then [s] else [s\<lparr>pc := Finished\<rparr>])
      | Finished \<Rightarrow> []
      | Crashed \<Rightarrow> [])"

text \<open>
  The end of one running thread, every possible one: \<open>threadFunction\<close> left by
  \<open>pthread_exit\<close> after a failed \<open>encode_wav2mp3\<close>, or through \<open>decrement\<close> with the
  mutex locked or not.
\<close>

definition worker_steps :: "system \<Rightarrow> system list" where
  "worker_steps s =
     (if running s > 0 then
        [s\<lparr>running := running s - 1\<rparr>,
         s\<lparr>running := running s - 1, numthreads := fst (decrement True (numthreads s))\<rparr>,
         s\<lparr>running := running s - 1, numthreads := fst (decrement False (numthreads s))\<rparr>]
      else [])"

definition successors :: "int \<Rightarrow> system \<Rightarrow> system list" where
  "successors numcores s = dispatcher_steps numcores s @ worker_steps s"

text \<open>
  A run from \<open>s\<close>: a list of states, each one a successor of the state before it.
  Any interleaving of dispatcher and thread steps is such a list from the state \<open>main\<close>
  starts the \<open>readdir\<close> loop in.
\<close>

fun run_from :: "int \<Rightarrow> system \<Rightarrow> system list \<Rightarrow> bool" where
  "run_from numcores s [] = True"
| "run_from numcores s (s' # rest) =
     (s' \<in> set (successors numcores s) \<and> run_from numcores s' rest)"

subsection \<open>Reading a list of calls\<close>

text \<open>The byte count an encoder call returned; 0 for every other call.\<close>

fun returned_bytes :: "event \<Rightarrow> int" where
  "returned_bytes (LameEncodeBuffer left right r) = sint r"
| "returned_bytes (LameEncodeFlush r) = sint r"
| "returned_bytes e = 0"

text \<open>The sizes of the \<open>fwrite\<close> calls, in order.\<close>

fun write_sizes :: "event list \<Rightarrow> nat list" where
  "write_sizes [] = []"
| "write_sizes (Fwrite n # es) = unat n # write_sizes es"
| "write_sizes (e # es) = write_sizes es"

text \<open>The calls to \<open>lame_encode_flush\<close>.\<close>

fun is_flush :: "event \<Rightarrow> bool" where
  "is_flush (LameEncodeFlush r) = True"
| "is_flush e = False"

subsection \<open>A world to run the program in\<close>

text \<open>
  Two stereo frames in the source, an encoder that returns 100 bytes for a block and 200
  for the flush, a mutex that locks, files that open and a disk that keeps every byte.
\<close>

definition studio :: "unit world" where
  "studio =
     \<lparr>mutex_locks = True,
      init_params_result = 0,
      wavfile_opens = True,
      mp3file_opens = True,
      wav_samples = [1, 2, 3, 4],
      lame_state = (),
      lame_encode_buffer = (\<lambda>st left right. (100, ())),
      lame_encode_flush = (\<lambda>st. 200),
      mp3file_keeps = sum_list\<rparr>"

text \<open>
  A disk that keeps no byte, an encoder that returns -1 for a block or for the flush, and
  an encoder that returns 0 bytes for both.
\<close>

definition full_disk :: "nat list \<Rightarrow> nat" where
  "full_disk written = 0"

definition silent_encode_buffer :: "unit \<Rightarrow> short list \<Rightarrow> short list \<Rightarrow> c_int \<times> unit" where
  "silent_encode_buffer st left right = (0, ())"

definition silent_encode_flush :: "unit \<Rightarrow> c_int" where
  "silent_encode_flush st = 0"

definition failing_encode_buffer :: "unit \<Rightarrow> short list \<Rightarrow> short list \<Rightarrow> c_int \<times> unit" where
  "failing_encode_buffer st left right = (- 1, ())"

definition failing_encode_flush :: "unit \<Rightarrow> c_int" where
  "failing_encode_flush st = - 1"

section \<open>Properties\<close>

declare stream_loop.simps [simp del]

subsection \<open>The conversion of the encoder's \<open>int\<close> to \<open>size_t\<close>\<close>

lemma unat_scast_nonneg:
  fixes r :: c_int
  assumes "0 \<le> sint r"
  shows "unat (scast r :: size_t) = nat (sint r)"
proof -
  have lt: "sint r < 2 ^ 31"
    using sint_lt [of r] by simp
  have "(scast r :: size_t) = word_of_int (sint r)"
    by simp
  then have "uint (scast r :: size_t) = take_bit 64 (sint r)"
    by (simp only: uint_word_of_int_eq len_num1 len_bit0 mult_numeral_1_right One_nat_def) simp
  also have "\<dots> = sint r"
    using assms lt by (simp add: take_bit_int_eq_self)
  finally show ?thesis by (metis nat_uint_eq)
qed

subsection \<open>The streaming loop, one iteration at a time\<close>

text \<open>
  No \<open>size_t\<close> is below 0, so the error branch of the loop is never taken: the last
  iteration (nothing read) flushes, writes and closes, and every other iteration encodes,
  writes and goes on.
\<close>

lemma stream_loop_end:
  "fread_items src = 0 \<Longrightarrow>
   stream_loop w st src written =
     \<lparr>status = EXIT_SUCCESS,
      calls = [Fread 0, LameEncodeFlush (lame_encode_flush w st),
               Fwrite (scast (lame_encode_flush w st)), LameClose, FcloseWav, FcloseMp3],
      mp3_bytes = mp3file_holds w (written @ [unat (scast (lame_encode_flush w st) :: size_t)])\<rparr>"
  by (subst stream_loop.simps) (simp add: Let_def)

lemma stream_loop_block:
  "fread_items src \<noteq> 0 \<Longrightarrow>
   stream_loop w st src written =
     (let bytesread = fread_items src;
          wav_buffer = take (2 * bytesread) src;
          left = buffer_left wav_buffer bytesread;
          right = buffer_right wav_buffer bytesread;
          enc = lame_encode_buffer w st left right;
          rest = stream_loop w (snd enc) (drop (2 * bytesread) src)
                   (written @ [unat (scast (fst enc) :: size_t)])
      in \<lparr>status = status rest,
          calls = Fread bytesread # LameEncodeBuffer left right (fst enc) #
                  Fwrite (scast (fst enc)) # calls rest,
          mp3_bytes = mp3_bytes rest\<rparr>)"
  by (subst stream_loop.simps) (simp add: Let_def)

lemma fread_items_drop:
  "fread_items src \<noteq> 0 \<Longrightarrow> length (drop (2 * fread_items src) src) < length src"
  by (auto simp: fread_items_def WAV_SIZE_def)

lemma stream_loop_status: "status (stream_loop w st src written) = EXIT_SUCCESS"
proof (induction "length src" arbitrary: src st written rule: less_induct)
  case less
  show ?case
  proof (cases "fread_items src = 0")
    case True
    then show ?thesis by (simp add: stream_loop_end)
  next
    case False
    then show ?thesis
      using less [OF fread_items_drop [OF False]]
      by (simp add: stream_loop_block Let_def)
  qed
qed

lemma stream_loop_close: "count_list (calls (stream_loop w st src written)) LameClose = 1"
proof (induction "length src" arbitrary: src st written rule: less_induct)
  case less
  show ?case
  proof (cases "fread_items src = 0")
    case True
    then show ?thesis by (simp add: stream_loop_end)
  next
    case False
    then show ?thesis
      using less [OF fread_items_drop [OF False]]
      by (simp add: stream_loop_block Let_def)
  qed
qed

text \<open>What the destination keeps has no part in the calls the loop makes.\<close>

lemma stream_loop_calls_fwrite:
  "calls (stream_loop (w\<lparr>mp3file_keeps := f\<rparr>) st src written) =
   calls (stream_loop w st src written)"
proof (induction "length src" arbitrary: src st written rule: less_induct)
  case less
  show ?case
  proof (cases "fread_items src = 0")
    case True
    then show ?thesis by (simp add: stream_loop_end)
  next
    case False
    then show ?thesis
      using less [OF fread_items_drop [OF False]]
      by (simp add: stream_loop_block Let_def)
  qed
qed

text \<open>
  The file holds what the destination keeps of the writes the calls show, and with no
  negative encoder result those writes are the bytes the encoder calls returned.
\<close>

lemma write_sizes_append: "write_sizes (xs @ ys) = write_sizes xs @ write_sizes ys"
  by (induction xs rule: write_sizes.induct) simp_all

lemma stream_loop_holds:
  "mp3_bytes (stream_loop w st src written) =
     mp3file_holds w (written @ write_sizes (calls (stream_loop w st src written)))"
proof (induction "length src" arbitrary: src st written rule: less_induct)
  case less
  show ?case
  proof (cases "fread_items src = 0")
    case True
    then show ?thesis by (simp add: stream_loop_end)
  next
    case False
    then show ?thesis
      using less [OF fread_items_drop [OF False]]
      by (simp add: stream_loop_block Let_def)
  qed
qed

lemma stream_loop_written:
  assumes "\<forall>e \<in> set (calls (stream_loop w st src written)). 0 \<le> returned_bytes e"
  shows "int (sum_list (write_sizes (calls (stream_loop w st src written)))) =
         sum_list (map returned_bytes (calls (stream_loop w st src written)))"
  using assms
proof (induction "length src" arbitrary: src st written rule: less_induct)
  case less
  show ?case
  proof (cases "fread_items src = 0")
    case True
    with less.prems show ?thesis
      by (simp add: stream_loop_end unat_scast_nonneg)
  next
    case False
    with less.prems show ?thesis
      using less.hyps [OF fread_items_drop [OF False]]
      by (simp add: stream_loop_block Let_def unat_scast_nonneg)
  qed
qed

subsection \<open>\<open>encode_wav2mp3\<close> and \<open>threadFunction\<close> as a whole\<close>

lemma encode_wav2mp3_status:
  "status (encode_wav2mp3 w wavfile_path mp3file_path) =
     (if wavfile_opens w \<and> mp3file_opens w then EXIT_SUCCESS else EXIT_FAILURE)"
  by (simp add: encode_wav2mp3_def Let_def stream_loop_status)

lemma threadFunction_counter:
  "numthreads_after (threadFunction w wavfile_path mp3file_path n) =
     (if wavfile_opens w \<and> mp3file_opens w then fst (decrement (mutex_locks w) n) else n)"
  by (simp add: threadFunction_def Let_def encode_wav2mp3_status EXIT_SUCCESS_def EXIT_FAILURE_def)

text \<open>
  The three ends of a thread in \<open>worker_steps\<close> are the ends of \<open>threadFunction\<close>:
  whatever the world of the job, its effect on the counter is one of them.
\<close>

lemma worker_steps_threadFunction:
  assumes "0 < running s"
  shows "s\<lparr>running := running s - 1,
           numthreads := numthreads_after (threadFunction w wavfile_path mp3file_path (numthreads s))\<rparr>
         \<in> set (worker_steps s)"
proof -
  have same: "s\<lparr>running := running s - 1, numthreads := numthreads s\<rparr> = s\<lparr>running := running s - 1\<rparr>"
    by simp
  show ?thesis
    using assms same
    by (cases "mutex_locks w") (simp_all add: threadFunction_counter worker_steps_def)
qed

lemma encode_wav2mp3_opened:
  assumes "wavfile_opens w" and "mp3file_opens w"
  shows "encode_wav2mp3 w a b =
     (stream_loop w (lame_state w) (wav_samples w) [])
       \<lparr>calls := LameInit # LameInitParams #
          (if sint (init_params_result w) < 0 then locked_log w ErrorInitParams else []) @
          FopenWav a # FopenMp3 b # calls (stream_loop w (lame_state w) (wav_samples w) [])\<rparr>"
  using assms by (simp add: encode_wav2mp3_def Let_def)

lemma locked_log_no_close: "count_list (locked_log w m) LameClose = 0"
  by (simp add: locked_log_def)

lemma locked_log_bytes: "sum_list (map returned_bytes (locked_log w m)) = 0"
  by (simp add: locked_log_def)

lemma locked_log_no_flush: "filter is_flush (locked_log w m) = []"
  by (simp add: locked_log_def)

lemma locked_log_no_write: "write_sizes (locked_log w m) = []"
  by (simp add: locked_log_def)

text \<open>
  \<open>lame_close\<close> is called once by a job that returns \<open>EXIT_SUCCESS\<close> and not at all by
  one that returns \<open>EXIT_FAILURE\<close>.
\<close>

lemma lame_close_on_success_only:
  "count_list (calls (encode_wav2mp3 w wavfile_path mp3file_path)) LameClose =
     (if status (encode_wav2mp3 w wavfile_path mp3file_path) = EXIT_SUCCESS then 1 else 0)"
proof (cases "wavfile_opens w \<and> mp3file_opens w")
  case True
  then show ?thesis
    by (simp add: encode_wav2mp3_opened stream_loop_status stream_loop_close locked_log_no_close)
next
  case False
  then show ?thesis
    by (auto simp: encode_wav2mp3_def Let_def locked_log_no_close
        EXIT_SUCCESS_def EXIT_FAILURE_def)
qed

text \<open>The loop flushes once.\<close>

lemma stream_loop_one_flush: "length (filter is_flush (calls (stream_loop w st src written))) = 1"
proof (induction "length src" arbitrary: src st written rule: less_induct)
  case less
  show ?case
  proof (cases "fread_items src = 0")
    case True
    then show ?thesis by (simp add: stream_loop_end)
  next
    case False
    then show ?thesis
      using less [OF fread_items_drop [OF False]]
      by (simp add: stream_loop_block Let_def)
  qed
qed

lemma sum_list_pos_iff:
  fixes f :: "'a \<Rightarrow> int"
  assumes "\<forall>x \<in> set xs. 0 \<le> f x"
  shows "0 < sum_list (map f xs) \<longleftrightarrow> (\<exists>x \<in> set xs. 0 < f x)"
  using assms
proof (induction xs)
  case Nil
  then show ?case by simp
next
  case (Cons a xs)
  then have a: "0 \<le> f a"
    by simp
  have "0 \<le> sum_list (map f xs)"
    using Cons.prems by (intro sum_list_nonneg) auto
  with a Cons show ?case by auto
qed

subsection \<open>Steps of a run\<close>

lemmas step_splits = location.split list.split sum.split prod.split decision.split

lemma dispatcher_steps_counter:
  "\<forall>s' \<in> set (dispatcher_steps numcores s).
     (numthreads s' = numthreads s
        \<or> pc s = Increment \<and> pc s' = Scan \<and> numthreads s' = numthreads s + 1)
     \<and> (pc s' = Create \<longrightarrow> pc s = Poll \<and> numthreads s < numcores)
     \<and> (pc s' = Increment \<longrightarrow> pc s = Create)"
  by (simp add: dispatcher_steps_def admission_waits_def split: step_splits)

lemma worker_steps_counter:
  "\<forall>s' \<in> set (worker_steps s).
     pc s' = pc s \<and>
     (numthreads s' = numthreads s \<or> 0 < numthreads s \<and> numthreads s' = numthreads s - 1)"
  by (auto simp: worker_steps_def decrement_def)

lemma successors_counter:
  assumes "s' \<in> set (successors numcores s)"
  shows "numthreads s' = numthreads s
         \<or> pc s = Increment \<and> pc s' = Scan \<and> numthreads s' = numthreads s + 1
         \<or> 0 < numthreads s \<and> numthreads s' = numthreads s - 1"
    and "pc s' = Create \<Longrightarrow> pc s = Create \<or> pc s = Poll \<and> numthreads s < numcores"
    and "pc s' = Increment \<Longrightarrow> pc s = Increment \<or> pc s = Create"
  using assms dispatcher_steps_counter [of numcores s] worker_steps_counter [of s]
  by (auto simp: successors_def)

text \<open>The counter never goes below 0 along a run.\<close>

lemma run_from_nonneg:
  assumes "run_from numcores s trace" and "0 \<le> numthreads s" and "s' \<in> set trace"
  shows "0 \<le> numthreads s'"
  using assms
proof (induction trace arbitrary: s)
  case Nil
  then show ?case by simp
next
  case (Cons t rest)
  from Cons.prems(1) have t: "t \<in> set (successors numcores s)" and rest: "run_from numcores t rest"
    by simp_all
  from successors_counter(1) [OF t] Cons.prems(2) have "0 \<le> numthreads t"
    by auto
  with Cons.IH [OF rest] Cons.prems(3) show ?case
    by auto
qed

text \<open>
  The counter stays at or below \<open>numcores\<close>: between the test of the admission loop and
  the increment it is below \<open>numcores\<close>, since the threads only take from it.
\<close>

lemma run_from_bounded:
  assumes "run_from numcores s trace"
    and "numthreads s \<le> numcores"
    and "pc s = Create \<or> pc s = Increment \<longrightarrow> numthreads s < numcores"
    and "s' \<in> set trace"
  shows "numthreads s' \<le> numcores"
  using assms
proof (induction trace arbitrary: s)
  case Nil
  then show ?case by simp
next
  case (Cons t rest)
  from Cons.prems(1) have t: "t \<in> set (successors numcores s)" and rest: "run_from numcores t rest"
    by simp_all
  have le: "numthreads t \<le> numcores"
    using successors_counter(1) [OF t] Cons.prems(2,3) by auto
  have lt: "pc t = Create \<or> pc t = Increment \<longrightarrow> numthreads t < numcores"
    using successors_counter [OF t] Cons.prems(2,3) by auto
  from Cons.IH [OF rest le lt] le Cons.prems(4) show ?case
    by auto
qed

text \<open>
  With \<open>numcores\<close> at 0 or below, the admission loop is never left: no thread is ever
  created.
\<close>

lemma run_from_never_admits:
  assumes "run_from numcores s trace"
    and "numcores \<le> 0"
    and "numthreads s = 0 \<and> pc s \<noteq> Create \<and> pc s \<noteq> Increment"
    and "s' \<in> set trace"
  shows "numthreads s' = 0 \<and> pc s' \<noteq> Create \<and> pc s' \<noteq> Increment"
  using assms
proof (induction trace arbitrary: s)
  case Nil
  then show ?case by simp
next
  case (Cons t rest)
  from Cons.prems(1) have t: "t \<in> set (successors numcores s)" and rest: "run_from numcores t rest"
    by simp_all
  have inv: "numthreads t = 0 \<and> pc t \<noteq> Create \<and> pc t \<noteq> Increment"
    using successors_counter [OF t] Cons.prems(2,3) by auto
  from Cons.IH [OF rest Cons.prems(2) inv] inv Cons.prems(4) show ?case
    by auto
qed

subsection \<open>Directory entries\<close>

text \<open>An entry with a dot whose last segment is not \<open>.wav\<close> is skipped with its message.\<close>

lemma dispatch_entry_skips:
  assumes "strrchr d_name CHR ''.'' = Some ext" and "ext \<noteq> ''.wav''"
  shows "dispatch_entry p d_name = Inr (p, Skipped (NotAWaveFile d_name))"
  using assms by (simp add: dispatch_entry_def)

lemma strrchr_None: "strrchr s c = None \<longleftrightarrow> c \<notin> set s"
  by (induction s) (auto split: option.splits)

subsection \<open>Unfolding on concrete inputs\<close>

lemmas eval_defs = studio_def full_disk_def failing_encode_buffer_def failing_encode_flush_def
  silent_encode_buffer_def silent_encode_flush_def
  encode_wav2mp3_def threadFunction_def locked_log_def decrement_def
  stream_loop.simps fread_items_def WAV_SIZE_def buffer_left_def buffer_right_def mp3file_holds_def
  EXIT_SUCCESS_def EXIT_FAILURE_def Let_def

lemmas run_defs = successors_def dispatcher_steps_def worker_steps_def decrement_def
  admission_waits_def drain_waits_def dispatch_entry_def initial_def numcores_of_def

section \<open>The claims\<close>

subsection \<open>C1: a thread gives its slot back however the job ends\<close>

text \<open>
  Claim C1 says that a worker decrements the shared counter exactly once whether its job
  succeeds or fails, so that increments and decrements agree when the drain loop exits.
  The source does not do this on the failure path. The job here cannot open its source
  file, with the counter at 1: \<open>threadFunction\<close> ends by \<open>pthread_exit\<close> with
  \<open>EXIT_FAILURE\<close> and the counter is still 1. In the run below (one core, one entry
  \<open>c.wav\<close>) the dispatcher admits the job and increments, the thread ends that way, and
  the drain loop is reached with the counter at 1 and no thread left: its only successor
  is itself.
\<close>

theorem failed_worker_keeps_slot:
  "threadFunction (studio\<lparr>wavfile_opens := False\<rparr>) ''music/c.wav'' ''music/c.mp3'' 1 =
     \<lparr>thread_exit = EXIT_FAILURE,
      numthreads_after = 1,
      thread_calls = [Log (BeginEncoding ''music/c.mp3'' ''music/c.wav''), LameInit, LameInitParams,
                      FopenWav ''music/c.wav'', Log (ErrorOpenWav ''music/c.wav'')]\<rparr>
   \<and> run_from 1 (initial ''music'' [''c.wav''])
        [\<lparr>numthreads = 0, pc = Poll, path = ''music/'', entries = [], running = 0\<rparr>,
         \<lparr>numthreads = 0, pc = Create, path = ''music/'', entries = [], running = 0\<rparr>,
         \<lparr>numthreads = 0, pc = Increment, path = ''music/'', entries = [], running = 1\<rparr>,
         \<lparr>numthreads = 1, pc = Scan, path = ''music/'', entries = [], running = 1\<rparr>,
         \<lparr>numthreads = 1, pc = Scan, path = ''music/'', entries = [], running = 0\<rparr>,
         \<lparr>numthreads = 1, pc = Drain, path = ''music/'', entries = [], running = 0\<rparr>]
   \<and> successors 1 \<lparr>numthreads = 1, pc = Drain, path = ''music/'', entries = [], running = 0\<rparr> =
        [\<lparr>numthreads = 1, pc = Drain, path = ''music/'', entries = [], running = 0\<rparr>]"
proof -
  have thread: "threadFunction (studio\<lparr>wavfile_opens := False\<rparr>) ''music/c.wav'' ''music/c.mp3'' 1 =
     \<lparr>thread_exit = EXIT_FAILURE,
      numthreads_after = 1,
      thread_calls = [Log (BeginEncoding ''music/c.mp3'' ''music/c.wav''), LameInit, LameInitParams,
                      FopenWav ''music/c.wav'', Log (ErrorOpenWav ''music/c.wav'')]\<rparr>"
    by (simp add: eval_defs)
  have run: "run_from 1 (initial ''music'' [''c.wav''])
        [\<lparr>numthreads = 0, pc = Poll, path = ''music/'', entries = [], running = 0\<rparr>,
         \<lparr>numthreads = 0, pc = Create, path = ''music/'', entries = [], running = 0\<rparr>,
         \<lparr>numthreads = 0, pc = Increment, path = ''music/'', entries = [], running = 1\<rparr>,
         \<lparr>numthreads = 1, pc = Scan, path = ''music/'', entries = [], running = 1\<rparr>,
         \<lparr>numthreads = 1, pc = Scan, path = ''music/'', entries = [], running = 0\<rparr>,
         \<lparr>numthreads = 1, pc = Drain, path = ''music/'', entries = [], running = 0\<rparr>]"
    by (simp add: run_defs)
  have stuck: "successors 1 \<lparr>numthreads = 1, pc = Drain, path = ''music/'', entries = [], running = 0\<rparr> =
        [\<lparr>numthreads = 1, pc = Drain, path = ''music/'', entries = [], running = 0\<rparr>]"
    by (simp add: run_defs)
  from thread run stuck show ?thesis by blast
qed

subsection \<open>C2: an encoder error fails the job\<close>

text \<open>
  Claim C2 says that a negative result of the encoder, for a block or for the flush,
  makes \<open>encode_wav2mp3\<close> return failure and write nothing more. The source stores the
  result in a \<open>size_t\<close> before it tests \<open>byteswrote < 0\<close>, so the test never holds. Here
  the encoder returns -1 for the block: the job asks \<open>fwrite\<close> for 18446744073709551615 bytes, reads
  on, flushes, closes and returns \<open>EXIT_SUCCESS\<close>. The same return value comes out when
  the flush returns -1.
\<close>

theorem encode_error_not_detected:
  "status (encode_wav2mp3 (studio\<lparr>lame_encode_buffer := failing_encode_buffer\<rparr>) ''a.wav'' ''a.mp3'')
     = EXIT_SUCCESS
   \<and> calls (encode_wav2mp3 (studio\<lparr>lame_encode_buffer := failing_encode_buffer\<rparr>) ''a.wav'' ''a.mp3'')
     = [LameInit, LameInitParams, FopenWav ''a.wav'', FopenMp3 ''a.mp3'',
        Fread 2, LameEncodeBuffer [1, 3] [2, 4] (- 1), Fwrite 18446744073709551615,
        Fread 0, LameEncodeFlush 200, Fwrite 200, LameClose, FcloseWav, FcloseMp3]
   \<and> status (encode_wav2mp3 (studio\<lparr>lame_encode_flush := failing_encode_flush\<rparr>) ''a.wav'' ''a.mp3'')
     = EXIT_SUCCESS"
  by (simp add: eval_defs)

subsection \<open>C3: the counter never exceeds the limit\<close>

text \<open>
  Claim C3 says that no read of the shared counter, in any interleaving, sees a value
  above the limit L. The limit is \<open>numcores\<close>, the answer of \<open>sysconf\<close> as it is; when
  \<open>sysconf\<close> fails it is -1. Then the counter, 0 from the start, is above it at the first
  test of the admission loop.
\<close>

theorem counter_exceeds_failed_core_count:
  "run_from (numcores_of (- 1)) (initial ''music'' [''a.wav''])
     [\<lparr>numthreads = 0, pc = Poll, path = ''music/'', entries = [], running = 0\<rparr>]
   \<and> numcores_of (- 1) <
       numthreads \<lparr>numthreads = 0, pc = Poll, path = ''music/'', entries = [], running = 0\<rparr>"
  by (simp add: run_defs)

text \<open>
  Claim C3, amended: in every run whose limit \<open>numcores\<close> is not negative, in every
  interleaving of dispatcher and thread steps, the counter is at most \<open>numcores\<close> in the
  first state and in every state after it. The dispatcher increments only after it found
  the counter below \<open>numcores\<close>, and the threads only decrement.
\<close>

theorem counter_within_limit:
  assumes "0 \<le> numcores"
    and "run_from numcores (initial p es) trace"
    and "s \<in> set (initial p es # trace)"
  shows "numthreads s \<le> numcores"
proof (cases "s = initial p es")
  case True
  with assms(1) show ?thesis by (simp add: initial_def)
next
  case False
  with assms(3) have "s \<in> set trace" by simp
  with assms(1,2) show ?thesis
    by (intro run_from_bounded [of numcores "initial p es" trace s]) (simp_all add: initial_def)
qed

theorem counter_within_limit_witness:
  "run_from 2 (initial ''music'' [''a.wav''])
     [\<lparr>numthreads = 0, pc = Poll, path = ''music/'', entries = [], running = 0\<rparr>,
      \<lparr>numthreads = 0, pc = Create, path = ''music/'', entries = [], running = 0\<rparr>,
      \<lparr>numthreads = 0, pc = Increment, path = ''music/'', entries = [], running = 1\<rparr>,
      \<lparr>numthreads = 1, pc = Scan, path = ''music/'', entries = [], running = 1\<rparr>]
   \<and> numthreads \<lparr>numthreads = 1, pc = Scan, path = ''music/'', entries = [], running = 1\<rparr> \<le> 2"
proof -
  have limit: "(0::int) \<le> 2" by simp
  have run: "run_from 2 (initial ''music'' [''a.wav''])
     [\<lparr>numthreads = 0, pc = Poll, path = ''music/'', entries = [], running = 0\<rparr>,
      \<lparr>numthreads = 0, pc = Create, path = ''music/'', entries = [], running = 0\<rparr>,
      \<lparr>numthreads = 0, pc = Increment, path = ''music/'', entries = [], running = 1\<rparr>,
      \<lparr>numthreads = 1, pc = Scan, path = ''music/'', entries = [], running = 1\<rparr>]"
    by (simp add: run_defs)
  have "numthreads \<lparr>numthreads = 1, pc = Scan, path = ''music/'', entries = [], running = 1\<rparr> \<le> 2"
    by (rule counter_within_limit [OF limit run]) simp
  with run show ?thesis by blast
qed

subsection \<open>C4: a failure while opening ends the job before the loop\<close>

text \<open>
  Claim C4 says that a failure of the source open, of the destination open or of the
  encoder initialisation takes the job to its failed end without a block being read or
  encoded. The two \<open>fopen\<close> failures do return at once. A negative result of
  \<open>lame_init_params\<close> only prints a message: here it is -1, both files open, and the job
  reads, encodes, flushes and returns \<open>EXIT_SUCCESS\<close> with 300 bytes written.
\<close>

theorem init_failure_still_streams:
  "encode_wav2mp3 (studio\<lparr>init_params_result := - 1\<rparr>) ''a.wav'' ''a.mp3'' =
     \<lparr>status = EXIT_SUCCESS,
      calls = [LameInit, LameInitParams, Log ErrorInitParams, FopenWav ''a.wav'', FopenMp3 ''a.mp3'',
               Fread 2, LameEncodeBuffer [1, 3] [2, 4] 100, Fwrite 100,
               Fread 0, LameEncodeFlush 200, Fwrite 200, LameClose, FcloseWav, FcloseMp3],
      mp3_bytes = 300\<rparr>"
  by (simp add: eval_defs)

subsection \<open>C5: the encoder is closed on every way out\<close>

text \<open>
  Claim C5 says that a worker that opened an encoder session calls \<open>lame_close\<close> on every
  exit path, the failing ones included. The source calls it on the way to
  \<open>return (EXIT_SUCCESS)\<close> only (\<open>lame_close_on_success_only\<close>). Here the encoder is
  initialised without error and the source file cannot be opened: the job returns
  \<open>EXIT_FAILURE\<close> after four calls, none of them \<open>lame_close\<close>.
\<close>

theorem open_failure_skips_lame_close:
  "0 \<le> sint (init_params_result (studio\<lparr>wavfile_opens := False\<rparr>))
   \<and> status (encode_wav2mp3 (studio\<lparr>wavfile_opens := False\<rparr>) ''a.wav'' ''a.mp3'') = EXIT_FAILURE
   \<and> calls (encode_wav2mp3 (studio\<lparr>wavfile_opens := False\<rparr>) ''a.wav'' ''a.mp3'') =
       [LameInit, LameInitParams, FopenWav ''a.wav'', Log (ErrorOpenWav ''a.wav'')]
   \<and> LameClose \<notin> set (calls (encode_wav2mp3 (studio\<lparr>wavfile_opens := False\<rparr>) ''a.wav'' ''a.mp3''))"
  by (simp add: eval_defs)

subsection \<open>C6: the counter is never negative\<close>

text \<open>
  Claim C6: a decrement of the counter at zero prints the warning and leaves the counter
  at zero, so the counter is never negative. Under the mutex, \<open>decrement\<close> at 0 returns 0
  with the message; and in every state \<open>s\<close> of every run, in any interleaving of
  dispatcher and thread steps, the counter is at least 0 and a decrement in that state,
  with the mutex locked or not, leaves it at least 0.
\<close>

theorem counter_never_negative:
  assumes "run_from numcores (initial p es) trace"
    and "s \<in> set (initial p es # trace)"
  shows "decrement True 0 = (0, [Log ErrorNumthreads])
         \<and> 0 \<le> fst (decrement locked (numthreads s))
         \<and> 0 \<le> numthreads s"
proof -
  have s: "0 \<le> numthreads s"
  proof (cases "s = initial p es")
    case True
    then show ?thesis by (simp add: initial_def)
  next
    case False
    with assms(2) have "s \<in> set trace" by simp
    with assms(1) show ?thesis
      by (intro run_from_nonneg [of numcores "initial p es" trace s]) (simp_all add: initial_def)
  qed
  then show ?thesis by (simp add: decrement_def)
qed

text \<open>
  A run in which the thread ends before the dispatcher has counted it: its decrement
  finds the counter at 0.
\<close>

theorem counter_never_negative_witness:
  "run_from 2 (initial ''music'' [''a.wav''])
     [\<lparr>numthreads = 0, pc = Poll, path = ''music/'', entries = [], running = 0\<rparr>,
      \<lparr>numthreads = 0, pc = Create, path = ''music/'', entries = [], running = 0\<rparr>,
      \<lparr>numthreads = 0, pc = Increment, path = ''music/'', entries = [], running = 1\<rparr>,
      \<lparr>numthreads = 0, pc = Increment, path = ''music/'', entries = [], running = 0\<rparr>,
      \<lparr>numthreads = 1, pc = Scan, path = ''music/'', entries = [], running = 0\<rparr>]
   \<and> decrement True 0 = (0, [Log ErrorNumthreads])
   \<and> 0 \<le> numthreads \<lparr>numthreads = 0, pc = Increment, path = ''music/'', entries = [], running = 0\<rparr>"
proof -
  have run: "run_from 2 (initial ''music'' [''a.wav''])
     [\<lparr>numthreads = 0, pc = Poll, path = ''music/'', entries = [], running = 0\<rparr>,
      \<lparr>numthreads = 0, pc = Create, path = ''music/'', entries = [], running = 0\<rparr>,
      \<lparr>numthreads = 0, pc = Increment, path = ''music/'', entries = [], running = 1\<rparr>,
      \<lparr>numthreads = 0, pc = Increment, path = ''music/'', entries = [], running = 0\<rparr>,
      \<lparr>numthreads = 1, pc = Scan, path = ''music/'', entries = [], running = 0\<rparr>]"
    by (simp add: run_defs)
  have "decrement True 0 = (0, [Log ErrorNumthreads])
        \<and> 0 \<le> fst (decrement True (numthreads
              \<lparr>numthreads = 0, pc = Increment, path = ''music/'', entries = [], running = 0\<rparr>))
        \<and> 0 \<le> numthreads \<lparr>numthreads = 0, pc = Increment, path = ''music/'', entries = [], running = 0\<rparr>"
    by (rule counter_never_negative [OF run]) simp
  with run show ?thesis by blast
qed

subsection \<open>C7: the concurrency limit\<close>

text \<open>
  Claim C7 says that the limit L is at least 1 and is 1 when the processor-count query
  fails. The source assigns the answer of \<open>sysconf\<close> to \<open>numcores\<close> and uses it as it is:
  for the answer -1 the limit is -1, and the admission loop waits with the counter at 0.
\<close>

theorem failed_core_query_not_defaulted:
  "numcores_of (- 1) = - 1 \<and> \<not> 1 \<le> numcores_of (- 1) \<and> admission_waits 0 (numcores_of (- 1))"
  by (simp add: numcores_of_def admission_waits_def)

text \<open>
  Claim C7, amended: the limit is the processor count as the platform reports it, with
  no default; it is at least 1 exactly when the reported count is, and the admission loop
  waits exactly while the counter \<open>n\<close> has reached the reported count. When the reported
  count is 0 or less (a failed query), no state \<open>s\<close> of any run is past the admission
  loop: no job is ever admitted and the counter stays 0.
\<close>

theorem numcores_as_reported:
  assumes "run_from (numcores_of sysconf_result) (initial p es) trace"
    and "s \<in> set (initial p es # trace)"
  shows "numcores_of sysconf_result = sysconf_result
         \<and> (1 \<le> numcores_of sysconf_result \<longleftrightarrow> 1 \<le> sysconf_result)
         \<and> (admission_waits n (numcores_of sysconf_result) \<longleftrightarrow> sysconf_result \<le> n)
         \<and> (sysconf_result \<le> 0 \<longrightarrow>
              numthreads s = 0 \<and> pc s \<noteq> Create \<and> pc s \<noteq> Increment)"
proof -
  have stuck: "numthreads s = 0 \<and> pc s \<noteq> Create \<and> pc s \<noteq> Increment"
    if failed: "sysconf_result \<le> 0"
  proof (cases "s = initial p es")
    case True
    then show ?thesis by (simp add: initial_def)
  next
    case False
    with assms(2) have "s \<in> set trace" by simp
    with assms(1) failed show ?thesis
      by (intro run_from_never_admits [of "numcores_of sysconf_result" "initial p es" trace s])
         (simp_all add: initial_def numcores_of_def)
  qed
  then show ?thesis
    by (simp add: numcores_of_def admission_waits_def)
qed

text \<open>
  The failed query in a run: the dispatcher reaches the admission loop for \<open>a.wav\<close> and
  tests again and again.
\<close>

theorem numcores_as_reported_witness:
  "run_from (numcores_of (- 1)) (initial ''music'' [''a.wav''])
     [\<lparr>numthreads = 0, pc = Poll, path = ''music/'', entries = [], running = 0\<rparr>,
      \<lparr>numthreads = 0, pc = Poll, path = ''music/'', entries = [], running = 0\<rparr>]
   \<and> numcores_of (- 1) = - 1
   \<and> admission_waits 0 (numcores_of (- 1))
   \<and> pc \<lparr>numthreads = 0, pc = Poll, path = ''music/'', entries = [], running = 0\<rparr> \<noteq> Create"
proof -
  have run: "run_from (numcores_of (- 1)) (initial ''music'' [''a.wav''])
     [\<lparr>numthreads = 0, pc = Poll, path = ''music/'', entries = [], running = 0\<rparr>,
      \<lparr>numthreads = 0, pc = Poll, path = ''music/'', entries = [], running = 0\<rparr>]"
    by (simp add: run_defs)
  have failed: "(- 1 :: int) \<le> 0"
    by simp
  have "numcores_of (- 1) = - 1
        \<and> (1 \<le> numcores_of (- 1) \<longleftrightarrow> (1::int) \<le> - 1)
        \<and> (admission_waits 0 (numcores_of (- 1)) \<longleftrightarrow> (- 1 :: int) \<le> 0)
        \<and> ((- 1 :: int) \<le> 0 \<longrightarrow>
             numthreads \<lparr>numthreads = 0, pc = Poll, path = ''music/'', entries = [], running = 0\<rparr> = 0
             \<and> pc \<lparr>numthreads = 0, pc = Poll, path = ''music/'', entries = [], running = 0\<rparr> \<noteq> Create
             \<and> pc \<lparr>numthreads = 0, pc = Poll, path = ''music/'', entries = [], running = 0\<rparr> \<noteq> Increment)"
    by (rule numcores_as_reported [OF run]) simp
  with run failed show ?thesis by blast
qed

subsection \<open>C8: the bytes in the destination file\<close>

text \<open>
  Claim C8 says that for a valid stereo source whose encoder calls all succeed, the
  destination file holds as many bytes as the encoder calls and the flush returned, and
  is not empty. The source looks neither at what \<open>fwrite\<close> nor at what \<open>fclose\<close> returns,
  and at no byte count. Two jobs over a source of two stereo frames, both returning
  \<open>EXIT_SUCCESS\<close>: with a full disk the encoder returns 100 and 200 bytes and the file
  holds 0 of the 300; with a disk that keeps every byte and an encoder that returns 0 for
  the block and 0 for the flush, every call succeeds and the file is empty.
\<close>

theorem bytes_lost_or_none_returned:
  "status (encode_wav2mp3 (studio\<lparr>mp3file_keeps := full_disk\<rparr>) ''a.wav'' ''a.mp3'') = EXIT_SUCCESS
   \<and> sum_list (map returned_bytes
        (calls (encode_wav2mp3 (studio\<lparr>mp3file_keeps := full_disk\<rparr>) ''a.wav'' ''a.mp3''))) = 300
   \<and> mp3_bytes (encode_wav2mp3 (studio\<lparr>mp3file_keeps := full_disk\<rparr>) ''a.wav'' ''a.mp3'') = 0
   \<and> encode_wav2mp3
         (studio\<lparr>lame_encode_buffer := silent_encode_buffer, lame_encode_flush := silent_encode_flush\<rparr>)
         ''a.wav'' ''a.mp3'' =
       \<lparr>status = EXIT_SUCCESS,
        calls = [LameInit, LameInitParams, FopenWav ''a.wav'', FopenMp3 ''a.mp3'',
                 Fread 2, LameEncodeBuffer [1, 3] [2, 4] 0, Fwrite 0,
                 Fread 0, LameEncodeFlush 0, Fwrite 0, LameClose, FcloseWav, FcloseMp3],
        mp3_bytes = 0\<rparr>"
  by (simp add: eval_defs)

text \<open>
  Claim C8, amended: for every job whose two files open, whose encoder calls and flush
  all return a count that is not negative and whose destination keeps every byte that
  the job's own \<open>fwrite\<close> calls hand to it (none is lost in a write or in the close), the
  destination file holds as many bytes as the encoder calls and the one flush returned
  together; it is not empty exactly when one of them returned a positive count.
\<close>

theorem mp3_bytes_accounting:
  assumes "wavfile_opens w" and "mp3file_opens w"
    and "\<forall>e \<in> set (calls (encode_wav2mp3 w wavfile_path mp3file_path)). 0 \<le> returned_bytes e"
    and "sum_list (write_sizes (calls (encode_wav2mp3 w wavfile_path mp3file_path)))
           \<le> mp3file_keeps w (write_sizes (calls (encode_wav2mp3 w wavfile_path mp3file_path)))"
  shows "int (mp3_bytes (encode_wav2mp3 w wavfile_path mp3file_path)) =
           sum_list (map returned_bytes (calls (encode_wav2mp3 w wavfile_path mp3file_path)))
         \<and> length (filter is_flush (calls (encode_wav2mp3 w wavfile_path mp3file_path))) = 1
         \<and> (0 < mp3_bytes (encode_wav2mp3 w wavfile_path mp3file_path) \<longleftrightarrow>
              (\<exists>e \<in> set (calls (encode_wav2mp3 w wavfile_path mp3file_path)). 0 < returned_bytes e))"
proof -
  let ?r = "encode_wav2mp3 w wavfile_path mp3file_path"
  let ?loop = "stream_loop w (lame_state w) (wav_samples w) []"
  have r: "?r = ?loop\<lparr>calls := LameInit # LameInitParams #
          (if sint (init_params_result w) < 0 then locked_log w ErrorInitParams else []) @
          FopenWav wavfile_path # FopenMp3 mp3file_path # calls ?loop\<rparr>"
    by (rule encode_wav2mp3_opened [OF assms(1,2)])
  have loop_ok: "\<forall>e \<in> set (calls ?loop). 0 \<le> returned_bytes e"
    using assms(3) by (simp add: r)
  have sizes: "write_sizes (calls ?r) = write_sizes (calls ?loop)"
    by (simp add: r write_sizes_append locked_log_no_write)
  have sum: "sum_list (map returned_bytes (calls ?r)) = sum_list (map returned_bytes (calls ?loop))"
    by (simp add: r locked_log_bytes)
  have kept: "sum_list (write_sizes (calls ?loop)) \<le> mp3file_keeps w (write_sizes (calls ?loop))"
    using assms(4) by (simp only: sizes)
  have "mp3_bytes ?r = mp3file_holds w (write_sizes (calls ?loop))"
    using stream_loop_holds [of w "lame_state w" "wav_samples w" "[]"] by (simp add: r)
  also have "\<dots> = sum_list (write_sizes (calls ?loop))"
    using kept by (simp add: mp3file_holds_def)
  finally have "int (mp3_bytes ?r) = int (sum_list (write_sizes (calls ?loop)))"
    by simp
  also have "\<dots> = sum_list (map returned_bytes (calls ?loop))"
    by (rule stream_loop_written [OF loop_ok])
  finally have bytes: "int (mp3_bytes ?r) = sum_list (map returned_bytes (calls ?r))"
    by (simp add: sum)
  have flush: "length (filter is_flush (calls ?r)) = 1"
    by (simp add: r locked_log_no_flush stream_loop_one_flush)
  have pos: "0 < sum_list (map returned_bytes (calls ?r)) \<longleftrightarrow>
             (\<exists>e \<in> set (calls ?r). 0 < returned_bytes e)"
    by (rule sum_list_pos_iff [OF assms(3)])
  have "0 < mp3_bytes ?r \<longleftrightarrow> 0 < sum_list (map returned_bytes (calls ?r))"
    using bytes by linarith
  with bytes flush pos show ?thesis by blast
qed

theorem mp3_bytes_accounting_witness:
  "mp3_bytes (encode_wav2mp3 studio ''a.wav'' ''a.mp3'') = 300
   \<and> sum_list (map returned_bytes (calls (encode_wav2mp3 studio ''a.wav'' ''a.mp3''))) = 300
   \<and> write_sizes (calls (encode_wav2mp3 studio ''a.wav'' ''a.mp3'')) = [100, 200]"
proof -
  have wav: "wavfile_opens studio" and mp3: "mp3file_opens studio"
    by (simp_all add: studio_def)
  have enc: "\<forall>e \<in> set (calls (encode_wav2mp3 studio ''a.wav'' ''a.mp3'')). 0 \<le> returned_bytes e"
    by (simp add: eval_defs)
  have sizes: "write_sizes (calls (encode_wav2mp3 studio ''a.wav'' ''a.mp3'')) = [100, 200]"
    by (simp add: eval_defs)
  have kept: "sum_list (write_sizes (calls (encode_wav2mp3 studio ''a.wav'' ''a.mp3'')))
                \<le> mp3file_keeps studio (write_sizes (calls (encode_wav2mp3 studio ''a.wav'' ''a.mp3'')))"
    unfolding sizes by (simp add: studio_def)
  have total: "sum_list (map returned_bytes (calls (encode_wav2mp3 studio ''a.wav'' ''a.mp3''))) = 300"
    by (simp add: eval_defs)
  from mp3_bytes_accounting [OF wav mp3 enc kept] total sizes show ?thesis
    by simp
qed

subsection \<open>C9: entries without the \<open>.wav\<close> extension are skipped\<close>

text \<open>
  Claim C9 says that an entry whose name does not end in \<open>.wav\<close>, a name with no dot
  included, is skipped with a message and starts no job. For a name with a dot this is
  \<open>dispatch_entry_skips\<close>. For a name with no dot \<open>strrchr\<close> returns \<open>NULL\<close> and the source
  hands it to \<open>strcmp\<close>: the entry \<open>README\<close> is a fault, not a skip, and the dispatcher's
  only step from the start of that directory is the stop, with \<open>a.wav\<close> still unread.
\<close>

theorem entry_without_dot_faults:
  "dispatch_entry ''music'' ''README'' = Inl NullPointer
   \<and> successors 2 (initial ''music'' [''README'', ''a.wav'']) =
       [\<lparr>numthreads = 0, pc = Crashed, path = ''music'', entries = [''README'', ''a.wav''], running = 0\<rparr>]"
  by (simp add: run_defs)

subsection \<open>C10: the result of the write is not looked at\<close>

text \<open>
  Claim C10: what \<open>fwrite\<close> does with the bytes has no part in the return value of
  \<open>encode_wav2mp3\<close>. For every job whose two files open and for every behaviour \<open>f\<close> of
  the destination (a full disk, a short write), the job returns \<open>EXIT_SUCCESS\<close> and makes
  the calls it makes when every byte is kept, and its thread ends with
  \<open>EXIT_SUCCESS\<close>, having released its slot and printed the message of a successful
  encoding when the mutex locks.
\<close>

theorem write_result_not_inspected:
  assumes "wavfile_opens w" and "mp3file_opens w"
  shows "status (encode_wav2mp3 (w\<lparr>mp3file_keeps := f\<rparr>) wavfile_path mp3file_path) = EXIT_SUCCESS
         \<and> calls (encode_wav2mp3 (w\<lparr>mp3file_keeps := f\<rparr>) wavfile_path mp3file_path) =
             calls (encode_wav2mp3 w wavfile_path mp3file_path)
         \<and> thread_exit (threadFunction (w\<lparr>mp3file_keeps := f\<rparr>) wavfile_path mp3file_path n) =
             EXIT_SUCCESS
         \<and> thread_calls (threadFunction (w\<lparr>mp3file_keeps := f\<rparr>) wavfile_path mp3file_path n) =
             locked_log w (BeginEncoding mp3file_path wavfile_path) @
             calls (encode_wav2mp3 w wavfile_path mp3file_path) @
             snd (decrement (mutex_locks w) n) @
             locked_log w (EndEncoded mp3file_path)"
proof -
  let ?w = "w\<lparr>mp3file_keeps := f\<rparr>"
  have st: "status (encode_wav2mp3 ?w wavfile_path mp3file_path) = EXIT_SUCCESS"
    using assms by (simp add: encode_wav2mp3_status)
  have cs: "calls (encode_wav2mp3 ?w wavfile_path mp3file_path) =
            calls (encode_wav2mp3 w wavfile_path mp3file_path)"
    using assms by (simp add: encode_wav2mp3_def Let_def stream_loop_calls_fwrite locked_log_def)
  have th: "threadFunction ?w wavfile_path mp3file_path n =
     \<lparr>thread_exit = EXIT_SUCCESS,
      numthreads_after = fst (decrement (mutex_locks w) n),
      thread_calls = locked_log w (BeginEncoding mp3file_path wavfile_path) @
             calls (encode_wav2mp3 w wavfile_path mp3file_path) @
             snd (decrement (mutex_locks w) n) @
             locked_log w (EndEncoded mp3file_path)\<rparr>"
    using st cs by (simp add: threadFunction_def Let_def locked_log_def)
  from st cs th show ?thesis by simp
qed

text \<open>The full disk again: nothing reaches the file, and job and thread end in success.\<close>

theorem write_result_not_inspected_witness:
  "status (encode_wav2mp3 (studio\<lparr>mp3file_keeps := full_disk\<rparr>) ''a.wav'' ''a.mp3'') = EXIT_SUCCESS
   \<and> thread_exit (threadFunction (studio\<lparr>mp3file_keeps := full_disk\<rparr>) ''a.wav'' ''a.mp3'' 1) =
       EXIT_SUCCESS
   \<and> mp3_bytes (encode_wav2mp3 (studio\<lparr>mp3file_keeps := full_disk\<rparr>) ''a.wav'' ''a.mp3'') = 0"
proof -
  have wav: "wavfile_opens studio" and mp3: "mp3file_opens studio"
    by (simp_all add: studio_def)
  have lost: "mp3_bytes (encode_wav2mp3 (studio\<lparr>mp3file_keeps := full_disk\<rparr>) ''a.wav'' ''a.mp3'') = 0"
    by (simp add: eval_defs)
  from write_result_not_inspected [OF wav mp3, of full_disk "''a.wav''" "''a.mp3''" 1] lost
  show ?thesis by simp
qed

end
